theory Spec2Isabelle
  imports Complex_Main
begin

section \<open>Bbox.ts: the bounding box\<close>

text \<open>
  JavaScript numbers are modelled as reals (no NaN, no rounding error of the
  arithmetic itself). A \<open>Vector\<close> or \<open>Point\<close> is a triple of coordinates; the fields
  \<open>x\<close>, \<open>y\<close>, \<open>z\<close> of the source are \<open>vx\<close>, \<open>vy\<close>, \<open>vz\<close> here.
\<close>

record Vector =
  vx :: real
  vy :: real
  vz :: real

datatype js_error = TypeError | KernelError

datatype log_entry = ConsoleError string | ConsoleWarn string | ConsoleInfo string

datatype retval = ReturnedNull | ReturnedUndefined

datatype MainAxis = AxisX | AxisY | AxisZ

text \<open>
  Sequencing of calls that may throw: the first exception ends the computation.
\<close>

definition bindE :: "'e + 'a \<Rightarrow> ('a \<Rightarrow> 'e + 'b) \<Rightarrow> 'e + 'b" where
  "bindE m f = (case m of Inl e \<Rightarrow> Inl e | Inr v \<Rightarrow> f v)"

text \<open>
  Modelled from the spec: \<open>Vector.distance\<close>, \<open>Vector.subtracted\<close>, \<open>Vector.added\<close> and
  \<open>Vector.round\<close> are not in the source. The distance is the Euclidean one; the rounding
  pass ("to neutralize kernel floating-point noise") rounds every coordinate to a number
  of decimals \<open>dec\<close> that the source does not fix, with the tie rule of \<open>Math.round\<close>.
\<close>

definition distance :: "Vector \<Rightarrow> Vector \<Rightarrow> real" where
  "distance a b = sqrt ((vx a - vx b)\<^sup>2 + (vy a - vy b)\<^sup>2 + (vz a - vz b)\<^sup>2)"

definition subtracted :: "Vector \<Rightarrow> Vector \<Rightarrow> Vector" where
  "subtracted a b = \<lparr>vx = vx a - vx b, vy = vy a - vy b, vz = vz a - vz b\<rparr>"

definition addedVec :: "Vector \<Rightarrow> Vector \<Rightarrow> Vector" where
  "addedVec a b = \<lparr>vx = vx a + vx b, vy = vy a + vy b, vz = vz a + vz b\<rparr>"

definition roundToDecimals :: "nat \<Rightarrow> real \<Rightarrow> real" where
  "roundToDecimals dec r = of_int (round (r * 10 ^ dec)) / 10 ^ dec"

definition roundVec :: "nat \<Rightarrow> Vector \<Rightarrow> Vector" where
  "roundVec dec v =
     \<lparr>vx = roundToDecimals dec (vx v), vy = roundToDecimals dec (vy v),
      vz = roundToDecimals dec (vz v)\<rparr>"

text \<open>
  Modelled from the spec: the kernel's box handle (\<open>Bnd_Box\<close>) is not in the source. It
  is "box construction from two corner points, returning a box handle supporting
  min/max-corner extraction"; the handle made without points is void and has no corners.
\<close>

datatype Bnd_Box = Bnd_Box_1 | Bnd_Box_2 Vector Vector

fun IsVoid :: "Bnd_Box \<Rightarrow> bool" where
  "IsVoid Bnd_Box_1 = True"
| "IsVoid (Bnd_Box_2 pmin pmax) = False"

fun CornerMin :: "Bnd_Box \<Rightarrow> js_error + Vector" where
  "CornerMin Bnd_Box_1 = Inl KernelError"
| "CornerMin (Bnd_Box_2 pmin pmax) = Inr pmin"

fun CornerMax :: "Bnd_Box \<Rightarrow> js_error + Vector" where
  "CornerMax Bnd_Box_1 = Inl KernelError"
| "CornerMax (Bnd_Box_2 pmin pmax) = Inr pmax"

text \<open>
  The object: \<open>_ocBbox\<close>, \<open>position\<close> and \<open>bounds\<close>
  (\<open>[xmin, xmax, ymin, ymax, zmin, zmax]\<close>); \<open>None\<close> is JavaScript's \<open>null\<close> or
  \<open>undefined\<close>.
\<close>

record Bbox =
  ocBbox :: "Bnd_Box option"
  position :: "Vector option"
  bounds :: "real list option"

definition emptyObject :: Bbox where
  "emptyObject = \<lparr>ocBbox = None, position = None, bounds = None\<rparr>"

text \<open>\<open>setBounds\<close>: the corners of the kernel box, rounded, become the bounds.\<close>

definition setBounds :: "nat \<Rightarrow> Bbox \<Rightarrow> js_error + Bbox" where
  "setBounds dec this =
     (case ocBbox this of
        None \<Rightarrow> Inl TypeError
      | Some oc \<Rightarrow>
          bindE (CornerMin oc) (\<lambda>cmin.
          bindE (CornerMax oc) (\<lambda>cmax.
            let mn = roundVec dec cmin; mx = roundVec dec cmax
            in Inr (this\<lparr>bounds := Some [vx mn, vx mx, vy mn, vy mx, vz mn, vz mx]\<rparr>))))"

text \<open>
  The accessors destructure \<open>this.bounds\<close>; on a box whose bounds were never set this
  is a \<open>TypeError\<close>.
\<close>

definition center :: "Bbox \<Rightarrow> js_error + Vector" where
  "center this =
     (case bounds this of
        None \<Rightarrow> Inl TypeError
      | Some b \<Rightarrow>
          Inr \<lparr>vx = b ! 0 + (b ! 1 - b ! 0) / 2, vy = b ! 2 + (b ! 3 - b ! 2) / 2,
               vz = b ! 4 + (b ! 5 - b ! 4) / 2\<rparr>)"

definition height :: "Bbox \<Rightarrow> js_error + real" where
  "height this = (case bounds this of None \<Rightarrow> Inl TypeError | Some b \<Rightarrow> Inr (b ! 5 - b ! 4))"

definition depth :: "Bbox \<Rightarrow> js_error + real" where
  "depth this = (case bounds this of None \<Rightarrow> Inl TypeError | Some b \<Rightarrow> Inr (b ! 3 - b ! 2))"

definition width :: "Bbox \<Rightarrow> js_error + real" where
  "width this = (case bounds this of None \<Rightarrow> Inl TypeError | Some b \<Rightarrow> Inr (b ! 1 - b ! 0))"

definition minPoint :: "Bbox \<Rightarrow> js_error + Vector" where
  "minPoint this =
     (case bounds this of
        None \<Rightarrow> Inl TypeError
      | Some b \<Rightarrow> Inr \<lparr>vx = b ! 0, vy = b ! 2, vz = b ! 4\<rparr>)"

definition maxPoint :: "Bbox \<Rightarrow> js_error + Vector" where
  "maxPoint this =
     (case bounds this of
        None \<Rightarrow> Inl TypeError
      | Some b \<Rightarrow> Inr \<lparr>vx = b ! 1, vy = b ! 3, vz = b ! 5\<rparr>)"

definition updateFromOcBbox :: "nat \<Rightarrow> Bbox \<Rightarrow> js_error + Bbox" where
  "updateFromOcBbox dec this =
     bindE (setBounds dec this) (\<lambda>this1.
     bindE (center this1) (\<lambda>c. Inr (this1\<lparr>position := Some c\<rparr>)))"

text \<open>
  \<open>create\<close>, lines 44 to 93. The two corners after the "switch around" are \<open>minVec\<close> and
  \<open>maxVec\<close>; the line for \<open>minZ\<close> compares \<open>minv.z\<close> with \<open>maxv.y\<close>, as the source
  does. The result is what the method returns, the object afterwards and what was logged
  (the interpolated sizes of the last message are left out).
\<close>

definition minVec :: "Vector \<Rightarrow> Vector \<Rightarrow> Vector" where
  "minVec minv maxv =
     \<lparr>vx = (if vx minv < vx maxv then vx minv else vx maxv),
      vy = (if vy minv < vy maxv then vy minv else vy maxv),
      vz = (if vz minv < vy maxv then vz minv else vz maxv)\<rparr>"

definition maxVec :: "Vector \<Rightarrow> Vector \<Rightarrow> Vector" where
  "maxVec minv maxv =
     \<lparr>vx = (if vx maxv > vx minv then vx maxv else vx minv),
      vy = (if vy maxv > vy minv then vy maxv else vy minv),
      vz = (if vz maxv > vz minv then vz maxv else vz minv)\<rparr>"

definition create :: "nat \<Rightarrow> Bbox \<Rightarrow> Vector \<Rightarrow> Vector \<Rightarrow> js_error + (retval \<times> Bbox \<times> log_entry list)" where
  "create dec this minv maxv =
     (if distance (minVec minv maxv) (maxVec minv maxv) = 0
      then Inr (ReturnedNull, this,
             [ConsoleError ''Bbox::constructor: Cannot create Bbox: Given points are the same''])
      else
        bindE (setBounds dec (this\<lparr>ocBbox := Some (Bnd_Box_2 (minVec minv maxv) (maxVec minv maxv))\<rparr>))
          (\<lambda>this1.
             case ocBbox this1 of
               None \<Rightarrow> Inl TypeError
             | Some oc \<Rightarrow>
                 if IsVoid oc
                 then Inr (ReturnedUndefined, this1,
                        [ConsoleWarn ''Bbox: Created bad Bbox: please supply a min and max Vector!''])
                 else bindE (updateFromOcBbox dec this1) (\<lambda>this2.
                        Inr (ReturnedUndefined, this2,
                          [ConsoleInfo ''Bbox::constructor: Succefully created Bbox'']))))"

text \<open>
  The constructor: without points an empty box on a void kernel handle, otherwise
  \<open>create\<close>, whose return value is dropped; the object is returned either way.
\<close>

definition newBbox :: "nat \<Rightarrow> (Vector \<times> Vector) option \<Rightarrow> js_error + (Bbox \<times> log_entry list)" where
  "newBbox dec corners =
     (case corners of
        None \<Rightarrow> Inr (emptyObject\<lparr>ocBbox := Some Bnd_Box_1\<rparr>, [])
      | Some (minv, maxv) \<Rightarrow>
          bindE (create dec emptyObject minv maxv) (\<lambda>(r, this, logs). Inr (this, logs)))"

text \<open>
  \<open>isPoint\<close>, \<open>is2D\<close> and \<open>axisMissingIn2D\<close>. \<open>SHAPE_TOLERANCE\<close> is a constant of the
  kernel object that the source does not define: the parameter \<open>tol\<close>.
\<close>

definition TOLERANCE_2D :: real where
  "TOLERANCE_2D = 4 / 10"

definition isPoint :: "real \<Rightarrow> Bbox \<Rightarrow> js_error + bool" where
  "isPoint tol this =
     bindE (height this) (\<lambda>h. bindE (width this) (\<lambda>w. bindE (depth this) (\<lambda>d.
       Inr (h \<le> tol \<and> w \<le> tol \<and> d \<le> tol))))"

definition is2D :: "real \<Rightarrow> Bbox \<Rightarrow> js_error + bool" where
  "is2D tol this =
     bindE (height this) (\<lambda>h. bindE (width this) (\<lambda>w. bindE (depth this) (\<lambda>d.
       Inr (h \<le> TOLERANCE_2D + tol \<or> w \<le> TOLERANCE_2D + tol \<or> d \<le> TOLERANCE_2D + tol))))"

definition axisMissingIn2D :: "real \<Rightarrow> Bbox \<Rightarrow> js_error + MainAxis option" where
  "axisMissingIn2D tol this =
     bindE (is2D tol this) (\<lambda>twoD.
       if \<not> twoD then Inr None
       else bindE (height this) (\<lambda>h.
         if h \<le> tol then Inr (Some AxisZ)
         else bindE (width this) (\<lambda>w.
           if w \<le> tol then Inr (Some AxisX) else Inr (Some AxisY))))"

text \<open>
  \<open>enlarged\<close>, lines 286 to 295: \<open>amountVec[axis] = 0\<close> clears one coordinate of the
  amount; with no axis (\<open>null\<close>) the assignment sets a property no coordinate reads.
\<close>

fun setAxis :: "MainAxis option \<Rightarrow> real \<Rightarrow> Vector \<Rightarrow> Vector" where
  "setAxis None r v = v"
| "setAxis (Some AxisX) r v = v\<lparr>vx := r\<rparr>"
| "setAxis (Some AxisY) r v = v\<lparr>vy := r\<rparr>"
| "setAxis (Some AxisZ) r v = v\<lparr>vz := r\<rparr>"

definition enlarged :: "nat \<Rightarrow> real \<Rightarrow> Bbox \<Rightarrow> real \<Rightarrow> js_error + (Bbox \<times> log_entry list)" where
  "enlarged dec tol this amount =
     bindE (is2D tol this) (\<lambda>twoD.
     bindE (if twoD
            then bindE (axisMissingIn2D tol this) (\<lambda>axis.
                   Inr (setAxis axis 0 \<lparr>vx = amount, vy = amount, vz = amount\<rparr>))
            else Inr \<lparr>vx = amount, vy = amount, vz = amount\<rparr>) (\<lambda>amountVec.
     bindE (minPoint this) (\<lambda>mn.
     bindE (maxPoint this) (\<lambda>mx.
       newBbox dec (Some (subtracted mn amountVec, addedVec mx amountVec))))))"

text \<open>
  \<open>added\<close>, lines 298 to 316: the loop over the indices of \<open>this.bounds\<close> takes the
  smaller value at an even index and the larger at an odd one, and a new box is made from
  the two combined corners.
\<close>

definition combinedBounds :: "real list \<Rightarrow> real list \<Rightarrow> real list" where
  "combinedBounds tb ob =
     map (\<lambda>i. if i mod 2 = 0 then (if tb ! i < ob ! i then tb ! i else ob ! i)
               else (if tb ! i > ob ! i then tb ! i else ob ! i)) [0..<length tb]"

definition added :: "nat \<Rightarrow> Bbox \<Rightarrow> Bbox \<Rightarrow> js_error + (Bbox \<times> log_entry list)" where
  "added dec this other =
     (case bounds this of
        None \<Rightarrow> Inl TypeError
      | Some tb \<Rightarrow>
          (case bounds other of
             None \<Rightarrow> Inl TypeError
           | Some ob \<Rightarrow>
               let c = combinedBounds tb ob
               in newBbox dec (Some (\<lparr>vx = c ! 0, vy = c ! 2, vz = c ! 4\<rparr>,
                                      \<lparr>vx = c ! 1, vy = c ! 3, vz = c ! 5\<rparr>))))"

section \<open>ShapeCollection: ingestion\<close>

text \<open>
  The Shape classes are not in the source. A shape is a value of a type \<open>'s\<close>, and
  what the collection asks of a shape is a parameter of the model: \<open>typeOf\<close> for
  \<open>type()\<close>, \<open>emp\<close> for \<open>isEmpty()\<close>, \<open>newVertex\<close> for \<open>new Vertex(p)\<close>, and further
  below \<open>hashcode\<close>, \<open>equals\<close> and \<open>bboxOf\<close>.

  What a caller may hand to the constructor, \<open>fromAll\<close>, \<open>_addEntities\<close> and \<open>add\<close> is
  a JavaScript value: \<open>null\<close> or \<open>undefined\<close>, a coordinate-like value that is no
  Vertex (a coordinate array, a Point, a Vector), a shape, a ShapeCollection (given by
  its \<open>shapes\<close> array), an array of such values, or something else. The \<open>shapes\<close> array
  of a collection is an array of such values too: that it holds shapes only is the
  property in question, not part of the type.
\<close>

datatype ShapeType = Vertex | Edge | Wire | Face | Shell | Solid

datatype 's entity =
    Null
  | Coord Vector
  | Shp 's
  | Coll "'s entity list"
  | Arr "'s entity list"
  | Unknown

text \<open>
  Modelled from the spec: the type guards are not in the source. A Vertex is
  point-like, as a coordinate-like value is; a point sequence is "a sequence of
  coordinate-likes", an array or a collection of point-likes.
\<close>

fun isPointLike :: "('s \<Rightarrow> ShapeType) \<Rightarrow> 's entity \<Rightarrow> bool" where
  "isPointLike typeOf (Coord p) = True"
| "isPointLike typeOf (Shp s) = (typeOf s = Vertex)"
| "isPointLike typeOf e = False"

fun isAnyShape :: "'s entity \<Rightarrow> bool" where
  "isAnyShape (Shp s) = True"
| "isAnyShape e = False"

fun isAnyShapeCollection :: "'s entity \<Rightarrow> bool" where
  "isAnyShapeCollection (Coll cs) = True"
| "isAnyShapeCollection e = False"

fun isPointLikeSequence :: "('s \<Rightarrow> ShapeType) \<Rightarrow> 's entity \<Rightarrow> bool" where
  "isPointLikeSequence typeOf (Arr xs) = list_all (isPointLike typeOf) xs"
| "isPointLikeSequence typeOf (Coll cs) = list_all (isPointLike typeOf) cs"
| "isPointLikeSequence typeOf e = False"

text \<open>
  Modelled from the spec: the helpers \<open>flattenEntitiesToArray\<close> and \<open>flattenEntities\<close>
  are not in the source. "All forms [are] recursively flattened into one linear list
  before classification", and the classification that follows has a case for a
  coordinate-like value, for a collection and for "a sequence of coordinate-likes (point
  sequence)". So nested arrays are flattened, and a coordinate array, a collection and a
  point sequence met inside an array stay single elements of the list
  (\<open>flattenElement\<close>); the array handed in is itself run through element by element.
\<close>

fun flattenElement :: "('s \<Rightarrow> ShapeType) \<Rightarrow> 's entity \<Rightarrow> 's entity list" where
  "flattenElement typeOf (Arr ys) =
     (if isPointLikeSequence typeOf (Arr ys) then [Arr ys]
      else concat (map (flattenElement typeOf) ys))"
| "flattenElement typeOf e = [e]"

definition flattenEntities :: "('s \<Rightarrow> ShapeType) \<Rightarrow> 's entity list \<Rightarrow> 's entity list" where
  "flattenEntities typeOf xs = concat (map (flattenElement typeOf) xs)"

fun flattenEntitiesToArray :: "('s \<Rightarrow> ShapeType) \<Rightarrow> 's entity \<Rightarrow> 's entity list" where
  "flattenEntitiesToArray typeOf (Arr xs) = flattenEntities typeOf xs"
| "flattenEntitiesToArray typeOf e = [e]"

text \<open>
  \<open>(!(es instanceof Vertex)) ? new Vertex(es) : es\<close>, the \<open>shapes\<close> of a collection,
  \<open>isEmpty()\<close> and \<open>type()\<close> of a member, and
  \<open>(Array.isArray(entities) && !isCoordArray(entities)) ? entities : [entities]\<close>.
\<close>

fun toVertex :: "(Vector \<Rightarrow> 's) \<Rightarrow> 's entity \<Rightarrow> 's entity" where
  "toVertex newVertex (Coord p) = Shp (newVertex p)"
| "toVertex newVertex e = e"

fun collShapes :: "'s entity \<Rightarrow> 's entity list" where
  "collShapes (Coll cs) = cs"
| "collShapes e = []"

fun isEmptyShape :: "('s \<Rightarrow> bool) \<Rightarrow> 's entity \<Rightarrow> bool" where
  "isEmptyShape emp (Shp s) = emp s"
| "isEmptyShape emp e = False"

fun typeOfEntity :: "('s \<Rightarrow> ShapeType) \<Rightarrow> 's entity \<Rightarrow> ShapeType option" where
  "typeOfEntity typeOf (Shp s) = Some (typeOf s)"
| "typeOfEntity typeOf e = None"

fun wrapArray :: "'s entity \<Rightarrow> 's entity list" where
  "wrapArray (Arr xs) = xs"
| "wrapArray e = [e]"

text \<open>
  The inner loop of the point-sequence case (lines 109 to 134), on one member \<open>e\<close> of
  the collection made from the sequence. In its last case the vertices of a collection
  \<open>e\<close> are appended: \<open>getShapesByType('Vertex')\<close> keeps the members whose \<open>type()\<close> is
  \<open>Vertex\<close> and makes a collection of them, which holds just these vertices (lemma
  \<open>ShapeCollection_of_vertices\<close> below).
\<close>

definition pointsLoop ::
  "('s \<Rightarrow> ShapeType) \<Rightarrow> ('s \<Rightarrow> bool) \<Rightarrow> (Vector \<Rightarrow> 's) \<Rightarrow> 's entity \<Rightarrow> 's entity list \<Rightarrow> 's entity list" where
  "pointsLoop typeOf emp newVertex e shapes =
     (if isPointLike typeOf e then shapes @ [toVertex newVertex e]
      else if isAnyShape e then (if \<not> isEmptyShape emp e then shapes @ [e] else shapes)
      else if isAnyShapeCollection e
        then shapes @ filter (\<lambda>s. typeOfEntity typeOf s = Some Vertex) (collShapes e)
      else shapes)"

text \<open>
  \<open>_addEntities\<close>, lines 75 to 168, without the group bookkeeping (no caller modelled
  here names a group, and a group never changes \<open>shapes\<close>). The argument \<open>this\<close> is
  the \<open>shapes\<close> array before the call, the result the array after it. The collection
  \<open>new ShapeCollection(es)\<close> of the point-sequence case is the constructor and
  \<open>fromAll\<close> unfolded: \<open>_addEntities\<close> on a fresh collection, after the two flattening
  passes. The recursion ends because a point sequence among the flattened elements is a
  proper part of the input, and flattening leaves a point sequence as it is.
\<close>

function addEntities ::
  "('s \<Rightarrow> ShapeType) \<Rightarrow> ('s \<Rightarrow> bool) \<Rightarrow> (Vector \<Rightarrow> 's) \<Rightarrow> 's entity list \<Rightarrow> 's entity \<Rightarrow> 's entity list" where
  "addEntities typeOf emp newVertex this entities =
     (if entities = Null then this
      else fold (\<lambda>es shapes.
             if es = Null then shapes
             else if isPointLike typeOf es then shapes @ [toVertex newVertex es]
             else if isAnyShapeCollection es then shapes @ collShapes es
             else if isPointLikeSequence typeOf es
               then fold (pointsLoop typeOf emp newVertex)
                      (addEntities typeOf emp newVertex []
                         (Arr (flattenEntities typeOf (flattenEntities typeOf (wrapArray es)))))
                      shapes
             else if isAnyShape es then (if \<not> isEmptyShape emp es then shapes @ [es] else shapes)
             else shapes)
           (flattenEntitiesToArray typeOf entities) this)"
  by pat_completeness auto
termination
proof (relation "measure (\<lambda>(typeOf, emp, newVertex, this, entities). size entities)")
  show "wf (measure (\<lambda>(typeOf, emp, newVertex, this, entities). size entities))"
    by simp
next
  fix typeOf :: "'s \<Rightarrow> ShapeType" and emp :: "'s \<Rightarrow> bool" and newVertex :: "Vector \<Rightarrow> 's"
    and self :: "'s entity list" and entities x :: "'s entity" and xa :: "'s entity list"
  assume mem: "x \<in> set (flattenEntitiesToArray typeOf entities)"
    and seq: "isPointLikeSequence typeOf x" and nocoll: "\<not> isAnyShapeCollection x"
  have elem: "size y \<le> size e" if "y \<in> set (flattenElement typeOf e)" for e y :: "'s entity"
    using that
  proof (induction typeOf e arbitrary: y rule: flattenElement.induct)
    case (1 typeOf ys)
    show ?case
    proof (cases "isPointLikeSequence typeOf (Arr ys)")
      case True
      with "1.prems" show ?thesis by simp
    next
      case False
      with "1.prems" obtain c where c: "c \<in> set ys" "y \<in> set (flattenElement typeOf c)"
        by auto
      with "1.IH" False have "size y \<le> size c"
        by blast
      moreover have "size c \<le> size_list size ys"
        using c(1) by (simp add: size_list_estimation')
      ultimately show ?thesis by simp
    qed
  qed simp_all
  from seq nocoll obtain ys where x: "x = Arr ys" and pl: "list_all (isPointLike typeOf) ys"
    by (cases x) auto
  have keep: "concat (map (flattenElement typeOf) zs) = zs"
    if "list_all (isPointLike typeOf) zs" for zs :: "'s entity list"
    using that
  proof (induction zs)
    case Nil
    then show ?case by simp
  next
    case (Cons z zs)
    then have "flattenElement typeOf z = [z]"
      by (cases z) auto
    with Cons show ?case by simp
  qed
  have arg: "Arr (flattenEntities typeOf (flattenEntities typeOf (wrapArray x))) = x"
    using pl by (simp add: x flattenEntities_def keep)
  from mem x obtain xs c where "entities = Arr xs" "c \<in> set xs" "x \<in> set (flattenElement typeOf c)"
    by (cases entities) (auto simp: flattenEntities_def)
  then have "size x < size entities"
    using elem [of x c] size_list_estimation' [of c xs "size c" size] by simp
  then show "((typeOf, emp, newVertex, [],
           Arr (flattenEntities typeOf (flattenEntities typeOf (wrapArray x)))),
         (typeOf, emp, newVertex, self, entities))
        \<in> measure (\<lambda>(typeOf, emp, newVertex, this, entities). size entities)"
    by (simp add: arg)
qed

declare addEntities.simps [simp del]

text \<open>
  \<open>fromAll\<close> (lines 54 to 64), the constructor (lines 39 to 49, with no further
  arguments; \<open>if (entities)\<close> skips \<open>null\<close> and \<open>undefined\<close>) and \<open>add\<close> (lines 330 to 336).
  The index and group shortcut properties that these methods refresh mirror \<open>shapes\<close>
  and are not modelled.
\<close>

definition fromAll ::
  "('s \<Rightarrow> ShapeType) \<Rightarrow> ('s \<Rightarrow> bool) \<Rightarrow> (Vector \<Rightarrow> 's) \<Rightarrow> 's entity list \<Rightarrow> 's entity \<Rightarrow> 's entity list" where
  "fromAll typeOf emp newVertex this entities =
     addEntities typeOf emp newVertex this (Arr (flattenEntities typeOf (wrapArray entities)))"

definition ShapeCollection ::
  "('s \<Rightarrow> ShapeType) \<Rightarrow> ('s \<Rightarrow> bool) \<Rightarrow> (Vector \<Rightarrow> 's) \<Rightarrow> 's entity \<Rightarrow> 's entity list" where
  "ShapeCollection typeOf emp newVertex entities =
     (if entities = Null then []
      else fromAll typeOf emp newVertex []
             (Arr (flattenEntities typeOf (wrapArray entities))))"

definition add ::
  "('s \<Rightarrow> ShapeType) \<Rightarrow> ('s \<Rightarrow> bool) \<Rightarrow> (Vector \<Rightarrow> 's) \<Rightarrow> 's entity list \<Rightarrow> 's entity \<Rightarrow> 's entity list \<Rightarrow> 's entity list" where
  "add typeOf emp newVertex this shapes args =
     addEntities typeOf emp newVertex this (Arr (shapes # args))"














text \<open>
  The invariant: every member of \<open>shapes\<close> is a shape. An input is well formed when
  every collection in it, at any depth of arrays, satisfies the invariant.
\<close>

definition flat :: "'s entity list \<Rightarrow> bool" where
  "flat shapes = list_all isAnyShape shapes"


section \<open>ShapeCollection: the methods on a collection of shapes\<close>

text \<open>
  The methods below read \<open>shapes\<close> as what its type says, an array of shapes.
  \<open>new ShapeCollection(array of shapes)\<close> keeps the vertices (point-likes, pushed as
  they are) and the shapes that are not empty, in their order.
\<close>

definition keepsShape :: "('s \<Rightarrow> ShapeType) \<Rightarrow> ('s \<Rightarrow> bool) \<Rightarrow> 's \<Rightarrow> bool" where
  "keepsShape typeOf emp s = (typeOf s = Vertex \<or> \<not> emp s)"

definition newShapeCollection :: "('s \<Rightarrow> ShapeType) \<Rightarrow> ('s \<Rightarrow> bool) \<Rightarrow> 's list \<Rightarrow> 's list" where
  "newShapeCollection typeOf emp shapes = filter (keepsShape typeOf emp) shapes"

text \<open>
  \<open>lowestType\<close>, lines 1179 to 1194. \<open>indexOf\<close> is the array method: the first index
  of the value, or \<open>-1\<close>.
\<close>

definition TYPES_ORDERED :: "ShapeType list" where
  "TYPES_ORDERED = [Solid, Shell, Face, Wire, Edge, Vertex]"

fun indexOf :: "'a list \<Rightarrow> 'a \<Rightarrow> int" where
  "indexOf [] v = - 1"
| "indexOf (x # xs) v =
     (if x = v then 0 else (let i = indexOf xs v in if i < 0 then - 1 else i + 1))"

definition lowestType :: "('s \<Rightarrow> ShapeType) \<Rightarrow> 's list \<Rightarrow> ShapeType option" where
  "lowestType typeOf shapes =
     fst (fold (\<lambda>s (lowest, lowestIndex).
                  let i = indexOf TYPES_ORDERED (typeOf s)
                  in if i > lowestIndex then (Some (typeOf s), i) else (lowest, lowestIndex))
            shapes (None, - 1))"

text \<open>
  The ranking of the specification, \<open>Solid > Shell > Face > Wire > Edge > Vertex\<close>, as
  the dimension rank of a type.
\<close>

fun rank :: "ShapeType \<Rightarrow> nat" where
  "rank Vertex = 0"
| "rank Edge = 1"
| "rank Wire = 2"
| "rank Face = 3"
| "rank Shell = 4"
| "rank Solid = 5"

text \<open>
  An object used as a dictionary, as \<open>distinct\<close> uses \<open>{}\<close>: the properties in the
  order of their creation. \<open>Object.values\<close> lists the values of the keys that are array
  indices first (canonical decimal strings below \<open>2^32 - 1\<close>), by ascending number, and
  then those of the other keys in the order of creation. Reading \<open>obj[key]\<close> also
  finds the members that \<open>{}\<close> inherits from \<open>Object.prototype\<close>, all of them truthy,
  as the stored shapes are: \<open>truthyProp\<close> is \<open>obj[key]\<close> read as a condition.
\<close>

definition isDigit :: "char \<Rightarrow> bool" where
  "isDigit c = (c \<in> set ''0123456789'')"

definition digitValue :: "char \<Rightarrow> nat" where
  "digitValue c = of_char c - 48"

definition arrayIndex :: "string \<Rightarrow> nat option" where
  "arrayIndex k =
     (if k \<noteq> [] \<and> list_all isDigit k \<and> (k = ''0'' \<or> hd k \<noteq> CHR ''0'')
      then (let n = foldl (\<lambda>a c. 10 * a + digitValue c) 0 k
            in if n < 2 ^ 32 - 1 then Some n else None)
      else None)"

definition OBJECT_PROTOTYPE_MEMBERS :: "string list" where
  "OBJECT_PROTOTYPE_MEMBERS =
     [''constructor'', ''__defineGetter__'', ''__defineSetter__'', ''hasOwnProperty'',
      ''__lookupGetter__'', ''__lookupSetter__'', ''isPrototypeOf'', ''propertyIsEnumerable'',
      ''toString'', ''valueOf'', ''__proto__'', ''toLocaleString'']"

definition truthyProp :: "(string \<times> 'a) list \<Rightarrow> string \<Rightarrow> bool" where
  "truthyProp obj k = (k \<in> set OBJECT_PROTOTYPE_MEMBERS \<or> map_of obj k \<noteq> None)"

definition setProp :: "(string \<times> 'a) list \<Rightarrow> string \<Rightarrow> 'a \<Rightarrow> (string \<times> 'a) list" where
  "setProp obj k v =
     (if map_of obj k = None then obj @ [(k, v)]
      else map (\<lambda>(k', v'). if k' = k then (k', v) else (k', v')) obj)"

definition objectValues :: "(string \<times> 'a) list \<Rightarrow> 'a list" where
  "objectValues obj =
     map snd (sort_key (\<lambda>(k, v). case arrayIndex k of Some n \<Rightarrow> n | None \<Rightarrow> 0)
                (filter (\<lambda>(k, v). arrayIndex k \<noteq> None) obj))
     @ map snd (filter (\<lambda>(k, v). arrayIndex k = None) obj)"

text \<open>
  \<open>distinct\<close>, lines 1336 to 1353: the new value of \<open>this.shapes\<close>.
\<close>

definition distinctC :: "('s \<Rightarrow> string) \<Rightarrow> 's list \<Rightarrow> 's list" where
  "distinctC hashcode shapes =
     objectValues
       (fold (\<lambda>shape distinctShapesByHash.
                let hash = hashcode shape
                in if \<not> truthyProp distinctShapesByHash hash
                   then setProp distinctShapesByHash hash shape
                   else distinctShapesByHash)
          shapes [])"


text \<open>
  \<open>unique\<close>, lines 1313 to 1333: the new value of \<open>this.shapes\<close> (after \<open>distinct\<close>)
  and the \<open>shapes\<close> of the collection returned. \<open>usedShapes.includes(curShape)\<close> is a
  test of identity, and a value of \<open>'s\<close> stands for one shape object.
  \<open>usedShapes.concat(...)\<close> returns a new array, which the source drops:
  \<open>usedShapes\<close> itself is never assigned.
\<close>

definition unique ::
  "('s \<Rightarrow> string) \<Rightarrow> ('s \<Rightarrow> 's \<Rightarrow> bool) \<Rightarrow> ('s \<Rightarrow> ShapeType) \<Rightarrow> ('s \<Rightarrow> bool) \<Rightarrow> 's list \<Rightarrow> 's list \<times> 's list" where
  "unique hashcode equals typeOf emp this =
     (let shapes = distinctC hashcode this;
          (usedShapes, uniqueShapes) =
            fold (\<lambda>curShape (usedShapes, uniqueShapes).
                    if curShape \<notin> set usedShapes
                    then (let equalShapes = filter (\<lambda>testShape. equals curShape testShape) shapes;
                              dropped = usedShapes @ (equalShapes @ [curShape])
                          in (usedShapes, uniqueShapes @ [curShape]))
                    else (usedShapes, uniqueShapes))
              shapes ([], [])
      in (shapes, newShapeCollection typeOf emp uniqueShapes))"

text \<open>
  \<open>bbox\<close> (lines 784 to 799) and \<open>center\<close> (lines 770 to 781) of a collection.
  \<open>bboxOf\<close> is \<open>shape.bbox()\<close>, which may be \<open>null\<close>. \<open>this.first()\<close> is
  \<open>this.shapes[0]\<close>, \<open>undefined\<close> on an empty array, and calling \<open>bbox()\<close> on it is a
  \<open>TypeError\<close>; so is \<open>added\<close> on a combined box that is \<open>null\<close>. What \<open>added\<close> logs
  is dropped here.
\<close>

definition bboxC :: "nat \<Rightarrow> ('s \<Rightarrow> Bbox option) \<Rightarrow> 's list \<Rightarrow> js_error + Bbox option" where
  "bboxC dec bboxOf shapes =
     (case shapes of
        [] \<Rightarrow> Inl TypeError
      | first # rest \<Rightarrow>
          fold (\<lambda>shape acc.
                  bindE acc (\<lambda>combinedBbox.
                    case bboxOf shape of
                      None \<Rightarrow> Inr combinedBbox
                    | Some bbox \<Rightarrow>
                        (case combinedBbox of
                           None \<Rightarrow> Inl TypeError
                         | Some cb \<Rightarrow> bindE (added dec cb bbox) (\<lambda>(r, logs). Inr (Some r)))))
            rest (Inr (bboxOf first)))"

definition centerC :: "nat \<Rightarrow> ('s \<Rightarrow> Bbox option) \<Rightarrow> 's list \<Rightarrow> js_error + Vector option" where
  "centerC dec bboxOf shapes =
     (case shapes of
        [] \<Rightarrow> Inr None
      | [first] \<Rightarrow>
          (case bboxOf first of
             None \<Rightarrow> Inr None
           | Some b \<Rightarrow> bindE (center b) (\<lambda>c. Inr (Some c)))
      | _ \<Rightarrow>
          bindE (bboxC dec bboxOf shapes) (\<lambda>combinedBbox.
            case combinedBbox of
              None \<Rightarrow> Inl TypeError
            | Some b \<Rightarrow> bindE (center b) (\<lambda>c. Inr (Some c))))"

section \<open>ShapeCollection: objects and their identity\<close>

text \<open>
  For the methods whose contract is about instances (the same collection or a new one,
  shapes changed in place or copies changed), shapes and collections are objects in a
  store. A reference is a number; a collection object holds its \<open>shapes\<close> array, an
  array of references; \<open>nextRef\<close> is the next unused reference. \<open>shape._copy()\<close> makes
  a new shape object (\<open>copyShape\<close> gives its value); \<open>shape.move(v)\<close> and the rotations
  change the shape object in place (\<open>moveShape\<close>, \<open>rotateEulerShape\<close>, \<open>rotateXShape\<close>
  and so on give the new value) and return it. Calling a shape method on a reference
  that is no shape is a \<open>TypeError\<close>. Naming the copy and adding it to the scene
  (\<open>copy\<close>, lines 733 and 734) act on the scene only and are left out.
\<close>

type_synonym ref = nat

record 's heap =
  shapeAt :: "ref \<Rightarrow> 's option"
  collectionAt :: "ref \<Rightarrow> ref list option"
  nextRef :: ref

datatype Pivot = PivotCenter | PivotAt Vector

definition allocShape :: "'s \<Rightarrow> 's heap \<Rightarrow> ref \<times> 's heap" where
  "allocShape s h =
     (nextRef h, h\<lparr>shapeAt := (shapeAt h)(nextRef h \<mapsto> s), nextRef := Suc (nextRef h)\<rparr>)"

definition allocCollection :: "ref list \<Rightarrow> 's heap \<Rightarrow> ref \<times> 's heap" where
  "allocCollection shapes h =
     (nextRef h, h\<lparr>collectionAt := (collectionAt h)(nextRef h \<mapsto> shapes), nextRef := Suc (nextRef h)\<rparr>)"

fun copyShapes :: "('s \<Rightarrow> 's) \<Rightarrow> ref list \<Rightarrow> 's heap \<Rightarrow> js_error + (ref list \<times> 's heap)" where
  "copyShapes copyShape [] h = Inr ([], h)"
| "copyShapes copyShape (r # rs) h =
     (case shapeAt h r of
        None \<Rightarrow> Inl TypeError
      | Some s \<Rightarrow>
          (case allocShape (copyShape s) h of (r', h1) \<Rightarrow>
             bindE (copyShapes copyShape rs h1) (\<lambda>(rs', h2). Inr (r' # rs', h2))))"

fun forEachShape :: "('s \<Rightarrow> 's) \<Rightarrow> ref list \<Rightarrow> 's heap \<Rightarrow> js_error + 's heap" where
  "forEachShape f [] h = Inr h"
| "forEachShape f (r # rs) h =
     (case shapeAt h r of
        None \<Rightarrow> Inl TypeError
      | Some s \<Rightarrow> forEachShape f rs (h\<lparr>shapeAt := (shapeAt h)(r \<mapsto> f s)\<rparr>))"

definition shapeValues :: "'s heap \<Rightarrow> ref list \<Rightarrow> 's list" where
  "shapeValues h shapes = List.map_filter (shapeAt h) shapes"

text \<open>
  \<open>copy\<close>, lines 729 to 736: the copies go through the constructor, which keeps the
  vertices and the shapes that are not empty.
\<close>

definition copy ::
  "('s \<Rightarrow> ShapeType) \<Rightarrow> ('s \<Rightarrow> bool) \<Rightarrow> ('s \<Rightarrow> 's) \<Rightarrow> ref \<Rightarrow> 's heap \<Rightarrow> js_error + (ref \<times> 's heap)" where
  "copy typeOf emp copyShape this h =
     (case collectionAt h this of
        None \<Rightarrow> Inl TypeError
      | Some shapes \<Rightarrow>
          bindE (copyShapes copyShape shapes h) (\<lambda>(copiedShapes, h1).
            Inr (allocCollection
                   (filter (\<lambda>r. case shapeAt h1 r of None \<Rightarrow> False
                                 | Some s \<Rightarrow> keepsShape typeOf emp s) copiedShapes) h1)))"

text \<open>\<open>moved\<close>, lines 385 to 391.\<close>

definition moved ::
  "('s \<Rightarrow> ShapeType) \<Rightarrow> ('s \<Rightarrow> bool) \<Rightarrow> ('s \<Rightarrow> 's) \<Rightarrow> (Vector \<Rightarrow> 's \<Rightarrow> 's) \<Rightarrow> Vector \<Rightarrow> ref \<Rightarrow> 's heap \<Rightarrow> js_error + (ref \<times> 's heap)" where
  "moved typeOf emp copyShape moveShape vector this h =
     bindE (copy typeOf emp copyShape this h) (\<lambda>(newCollection, h1).
       case collectionAt h1 newCollection of
         None \<Rightarrow> Inl TypeError
       | Some shapes \<Rightarrow>
           bindE (forEachShape (moveShape vector) shapes h1) (\<lambda>h2. Inr (newCollection, h2)))"

text \<open>
  \<open>center\<close> of a collection object, and \<open>rotatedEuler\<close>, lines 423 to 429: the copy is
  rotated, and \<open>this\<close> is returned.
\<close>

definition centerH :: "nat \<Rightarrow> ('s \<Rightarrow> Bbox option) \<Rightarrow> ref \<Rightarrow> 's heap \<Rightarrow> js_error + Vector option" where
  "centerH dec bboxOf this h =
     (case collectionAt h this of
        None \<Rightarrow> Inl TypeError
      | Some shapes \<Rightarrow> centerC dec bboxOf (shapeValues h shapes))"

definition rotatedEuler ::
  "nat \<Rightarrow> ('s \<Rightarrow> ShapeType) \<Rightarrow> ('s \<Rightarrow> bool) \<Rightarrow> ('s \<Rightarrow> Bbox option) \<Rightarrow> ('s \<Rightarrow> 's)
     \<Rightarrow> (real \<Rightarrow> real \<Rightarrow> real \<Rightarrow> Vector option \<Rightarrow> 's \<Rightarrow> 's)
     \<Rightarrow> real \<Rightarrow> real \<Rightarrow> real \<Rightarrow> Pivot \<Rightarrow> ref \<Rightarrow> 's heap \<Rightarrow> js_error + (ref \<times> 's heap)" where
  "rotatedEuler dec typeOf emp bboxOf copyShape rotateEulerShape degX degY degZ pivot this h =
     bindE (copy typeOf emp copyShape this h) (\<lambda>(newCollection, h1).
     bindE (case pivot of
              PivotCenter \<Rightarrow> centerH dec bboxOf this h1
            | PivotAt p \<Rightarrow> Inr (Some p)) (\<lambda>pivot'.
       case collectionAt h1 newCollection of
         None \<Rightarrow> Inl TypeError
       | Some shapes \<Rightarrow>
           bindE (forEachShape (rotateEulerShape degX degY degZ pivot') shapes h1)
             (\<lambda>h2. Inr (this, h2))))"

text \<open>
  \<open>rotate\<close>, lines 433 to 439: the loop runs over the shapes of
  \<open>new ShapeCollection()\<close>, made without entities, and \<open>this\<close> is returned.
\<close>

definition rotate ::
  "(real \<Rightarrow> 's \<Rightarrow> 's) \<Rightarrow> (real \<Rightarrow> 's \<Rightarrow> 's) \<Rightarrow> (real \<Rightarrow> 's \<Rightarrow> 's) \<Rightarrow> Vector \<Rightarrow> ref \<Rightarrow> 's heap \<Rightarrow> js_error + (ref \<times> 's heap)" where
  "rotate rotateXShape rotateYShape rotateZShape rv this h =
     (case allocCollection [] h of (newCollection, h1) \<Rightarrow>
        (case collectionAt h1 newCollection of
           None \<Rightarrow> Inl TypeError
         | Some shapes \<Rightarrow>
             bindE (forEachShape
                      (\<lambda>shape. rotateZShape (vz rv) (rotateYShape (vy rv) (rotateXShape (vx rv) shape)))
                      shapes h1)
               (\<lambda>h2. Inr (this, h2))))"

section \<open>Properties of the bounding box\<close>

lemma bindE_simps [simp]:
  "bindE (Inl e) f = Inl e"
  "bindE (Inr v) f = f v"
  by (simp_all add: bindE_def)

lemma distance_zero_iff:
  "distance a b = 0 \<longleftrightarrow> vx a = vx b \<and> vy a = vy b \<and> vz a = vz b"
proof -
  have "(vx a - vx b)\<^sup>2 + (vy a - vy b)\<^sup>2 + (vz a - vz b)\<^sup>2 = 0
        \<longleftrightarrow> vx a = vx b \<and> vy a = vy b \<and> vz a = vz b"
    by (simp add: add_nonneg_eq_0_iff)
  then show ?thesis
    by (simp add: distance_def)
qed

lemma roundToDecimals_of_int [simp]: "roundToDecimals dec (of_int k) = of_int k"
proof -
  have "of_int k * (10::real) ^ dec = of_int (k * 10 ^ dec)"
    by simp
  then have "round (of_int k * (10::real) ^ dec) = k * 10 ^ dec"
    by (simp only: round_of_int)
  then show ?thesis
    by (simp add: roundToDecimals_def)
qed

lemma roundToDecimals_mono: "r \<le> s \<Longrightarrow> roundToDecimals dec r \<le> roundToDecimals dec s"
proof -
  assume "r \<le> s"
  then have "r * 10 ^ dec \<le> s * 10 ^ dec"
    by simp
  then have "round (r * 10 ^ dec) \<le> round (s * 10 ^ dec)"
    by (rule round_mono)
  then show ?thesis
    by (simp add: roundToDecimals_def divide_right_mono)
qed

text \<open>
  C9. When the two normalised corners are coincident, \<open>create\<close> logs one error, returns
  \<open>null\<close> and leaves the object as it was; it does not throw. The constructor then
  returns an object whose bounds are not populated.
\<close>

theorem create_coincident_returns_null:
  assumes "minVec minv maxv = maxVec minv maxv"
  shows "create dec this minv maxv =
           Inr (ReturnedNull, this,
             [ConsoleError ''Bbox::constructor: Cannot create Bbox: Given points are the same''])
       \<and> (\<exists>box logs. newBbox dec (Some (minv, maxv)) = Inr (box, logs) \<and> bounds box = None)"
  using assms by (simp add: newBbox_def create_def distance_zero_iff emptyObject_def)

theorem create_coincident_returns_null_witness:
  "minVec \<lparr>vx = 0, vy = 0, vz = 0\<rparr> \<lparr>vx = 0, vy = 0, vz = 0\<rparr>
     = maxVec \<lparr>vx = 0, vy = 0, vz = 0\<rparr> \<lparr>vx = 0, vy = 0, vz = 0\<rparr>
   \<and> create 3 emptyObject \<lparr>vx = 0, vy = 0, vz = 0\<rparr> \<lparr>vx = 0, vy = 0, vz = 0\<rparr>
     = Inr (ReturnedNull, emptyObject,
         [ConsoleError ''Bbox::constructor: Cannot create Bbox: Given points are the same''])
   \<and> (\<exists>box logs. newBbox 3 (Some (\<lparr>vx = 0, vy = 0, vz = 0\<rparr>, \<lparr>vx = 0, vy = 0, vz = 0\<rparr>))
          = Inr (box, logs) \<and> bounds box = None)"
proof -
  have h: "minVec \<lparr>vx = 0, vy = 0, vz = 0\<rparr> \<lparr>vx = 0, vy = 0, vz = 0\<rparr>
             = maxVec \<lparr>vx = 0, vy = 0, vz = 0\<rparr> \<lparr>vx = 0, vy = 0, vz = 0\<rparr>"
    by (simp add: minVec_def maxVec_def)
  from create_coincident_returns_null [OF h, of 3 emptyObject] h show ?thesis
    by blast
qed

lemma roundToDecimals_numeral [simp]:
  "roundToDecimals dec (numeral n) = numeral n"
  "roundToDecimals dec 0 = 0"
  "roundToDecimals dec 1 = 1"
  "roundToDecimals dec (- numeral n) = - numeral n"
  "roundToDecimals dec (- 1) = - 1"
  using roundToDecimals_of_int [of dec "numeral n"] roundToDecimals_of_int [of dec 0]
    roundToDecimals_of_int [of dec 1] roundToDecimals_of_int [of dec "- numeral n"]
    roundToDecimals_of_int [of dec "- 1"]
  by simp_all

lemmas bbox_eval = newBbox_def create_def setBounds_def updateFromOcBbox_def center_def
  roundVec_def emptyObject_def Let_def distance_zero_iff minVec_def maxVec_def

text \<open>
  What the constructor builds from two corners whose normalised forms differ: the
  bounds are the rounded coordinates of \<open>minVec\<close> and \<open>maxVec\<close>.
\<close>

lemma newBbox_distinct:
  assumes "minVec minv maxv \<noteq> maxVec minv maxv"
  shows "\<exists>box. newBbox dec (Some (minv, maxv)) =
            Inr (box, [ConsoleInfo ''Bbox::constructor: Succefully created Bbox''])
          \<and> bounds box =
              Some [roundToDecimals dec (vx (minVec minv maxv)),
                    roundToDecimals dec (vx (maxVec minv maxv)),
                    roundToDecimals dec (vy (minVec minv maxv)),
                    roundToDecimals dec (vy (maxVec minv maxv)),
                    roundToDecimals dec (vz (minVec minv maxv)),
                    roundToDecimals dec (vz (maxVec minv maxv))]"
proof -
  have "distance (minVec minv maxv) (maxVec minv maxv) \<noteq> 0"
    using assms by (auto simp: distance_zero_iff minVec_def maxVec_def)
  then show ?thesis
    by (simp add: newBbox_def create_def setBounds_def updateFromOcBbox_def center_def
        roundVec_def emptyObject_def Let_def)
qed

lemma newBbox_coincident:
  assumes "minVec minv maxv = maxVec minv maxv"
  shows "newBbox dec (Some (minv, maxv)) =
           Inr (emptyObject,
             [ConsoleError ''Bbox::constructor: Cannot create Bbox: Given points are the same''])"
  using assms by (simp add: newBbox_def create_def distance_zero_iff)

text \<open>
  The part of C1 that holds: whatever the order of the two corners, bounds that the
  constructor populates have each lower bound at most the upper one.
\<close>

lemma newBbox_bounds_ordered:
  assumes "newBbox dec (Some (minv, maxv)) = Inr (box, logs)" and "bounds box = Some bs"
  shows "bs ! 0 \<le> bs ! 1 \<and> bs ! 2 \<le> bs ! 3 \<and> bs ! 4 \<le> bs ! 5"
proof (cases "minVec minv maxv = maxVec minv maxv")
  case True
  then have "box = emptyObject"
    using assms(1) by (simp add: newBbox_coincident)
  then show ?thesis
    using assms(2) by (simp add: emptyObject_def)
next
  case False
  have x: "vx (minVec minv maxv) \<le> vx (maxVec minv maxv)"
    by (simp add: minVec_def maxVec_def)
  have y: "vy (minVec minv maxv) \<le> vy (maxVec minv maxv)"
    by (simp add: minVec_def maxVec_def)
  have z: "vz (minVec minv maxv) \<le> vz (maxVec minv maxv)"
    by (simp add: minVec_def maxVec_def)
  from newBbox_distinct [OF False, of dec] assms
  have "bs = [roundToDecimals dec (vx (minVec minv maxv)),
              roundToDecimals dec (vx (maxVec minv maxv)),
              roundToDecimals dec (vy (minVec minv maxv)),
              roundToDecimals dec (vy (maxVec minv maxv)),
              roundToDecimals dec (vz (minVec minv maxv)),
              roundToDecimals dec (vz (maxVec minv maxv))]"
    by auto
  then show ?thesis
    using x y z by (simp add: roundToDecimals_mono)
qed

text \<open>
  C1. The bounds are not independent of the order of the two corners. For the corners
  \<open>(0,10,0)\<close> and \<open>(1,10,5)\<close> the constructor gives the bounds \<open>[0,1,10,10,0,5]\<close>; for
  the same corners in the other order it gives \<open>[0,1,10,10,5,5]\<close>: the lower z bound is
  chosen by comparing \<open>minv.z\<close> with \<open>maxv.y\<close>.
\<close>

theorem newBbox_order_dependent:
  "newBbox dec (Some (\<lparr>vx = 0, vy = 10, vz = 0\<rparr>, \<lparr>vx = 1, vy = 10, vz = 5\<rparr>)) =
     Inr (\<lparr>ocBbox = Some (Bnd_Box_2 \<lparr>vx = 0, vy = 10, vz = 0\<rparr> \<lparr>vx = 1, vy = 10, vz = 5\<rparr>),
           position = Some \<lparr>vx = 1 / 2, vy = 10, vz = 5 / 2\<rparr>,
           bounds = Some [0, 1, 10, 10, 0, 5]\<rparr>,
          [ConsoleInfo ''Bbox::constructor: Succefully created Bbox''])
   \<and> newBbox dec (Some (\<lparr>vx = 1, vy = 10, vz = 5\<rparr>, \<lparr>vx = 0, vy = 10, vz = 0\<rparr>)) =
     Inr (\<lparr>ocBbox = Some (Bnd_Box_2 \<lparr>vx = 0, vy = 10, vz = 5\<rparr> \<lparr>vx = 1, vy = 10, vz = 5\<rparr>),
           position = Some \<lparr>vx = 1 / 2, vy = 10, vz = 5\<rparr>,
           bounds = Some [0, 1, 10, 10, 5, 5]\<rparr>,
          [ConsoleInfo ''Bbox::constructor: Succefully created Bbox''])"
  by (simp add: bbox_eval)

lemma combinedBounds_self:
  "combinedBounds [a, b, c, d, e, f] [a, b, c, d, e, f] = [a, b, c, d, e, f]"
  by (simp add: combinedBounds_def upt_rec)

text \<open>
  C3. \<open>added\<close> is not the per-axis union on every pair of boxes, and not idempotent. The
  box built from the corners \<open>(0,0,10)\<close> and \<open>(1,1,5)\<close> has the bounds
  \<open>[0,1,0,1,5,10]\<close>; added to itself it gives a box with the bounds \<open>[0,1,0,1,10,10]\<close>,
  because the combined corners go through \<open>create\<close> again, where \<open>5 < 1\<close> fails.
\<close>

theorem added_self_changes_bounds:
  "newBbox dec (Some (\<lparr>vx = 0, vy = 0, vz = 10\<rparr>, \<lparr>vx = 1, vy = 1, vz = 5\<rparr>)) =
     Inr (\<lparr>ocBbox = Some (Bnd_Box_2 \<lparr>vx = 0, vy = 0, vz = 5\<rparr> \<lparr>vx = 1, vy = 1, vz = 10\<rparr>),
           position = Some \<lparr>vx = 1 / 2, vy = 1 / 2, vz = 15 / 2\<rparr>,
           bounds = Some [0, 1, 0, 1, 5, 10]\<rparr>,
          [ConsoleInfo ''Bbox::constructor: Succefully created Bbox''])
   \<and> added dec
        \<lparr>ocBbox = Some (Bnd_Box_2 \<lparr>vx = 0, vy = 0, vz = 5\<rparr> \<lparr>vx = 1, vy = 1, vz = 10\<rparr>),
         position = Some \<lparr>vx = 1 / 2, vy = 1 / 2, vz = 15 / 2\<rparr>,
         bounds = Some [0, 1, 0, 1, 5, 10]\<rparr>
        \<lparr>ocBbox = Some (Bnd_Box_2 \<lparr>vx = 0, vy = 0, vz = 5\<rparr> \<lparr>vx = 1, vy = 1, vz = 10\<rparr>),
         position = Some \<lparr>vx = 1 / 2, vy = 1 / 2, vz = 15 / 2\<rparr>,
         bounds = Some [0, 1, 0, 1, 5, 10]\<rparr> =
     Inr (\<lparr>ocBbox = Some (Bnd_Box_2 \<lparr>vx = 0, vy = 0, vz = 10\<rparr> \<lparr>vx = 1, vy = 1, vz = 10\<rparr>),
           position = Some \<lparr>vx = 1 / 2, vy = 1 / 2, vz = 10\<rparr>,
           bounds = Some [0, 1, 0, 1, 10, 10]\<rparr>,
          [ConsoleInfo ''Bbox::constructor: Succefully created Bbox''])"
  by (simp add: added_def combinedBounds_self bbox_eval)

text \<open>
  Where \<open>create\<close> compares as intended (the lower z of the union is below its upper
  y) and the union is not a single point, \<open>added\<close> does give the per-axis union,
  rounded.
\<close>

lemma combinedBounds_six:
  "combinedBounds [x0, x1, y0, y1, z0, z1] [u0, u1, v0, v1, w0, w1] =
     [min x0 u0, max x1 u1, min y0 v0, max y1 v1, min z0 w0, max z1 w1]"
  by (auto simp: combinedBounds_def upt_rec min_def max_def)

lemma added_union:
  assumes tb: "bounds this = Some [x0, x1, y0, y1, z0, z1]"
    and ob: "bounds other = Some [u0, u1, v0, v1, w0, w1]"
    and ordered: "x0 \<le> x1" "y0 \<le> y1" "z0 \<le> z1" "u0 \<le> u1" "v0 \<le> v1" "w0 \<le> w1"
    and extent: "min x0 u0 < max x1 u1 \<or> min y0 v0 < max y1 v1 \<or> min z0 w0 < max z1 w1"
    and zy: "min z0 w0 < max y1 v1"
  shows "\<exists>box. added dec this other =
            Inr (box, [ConsoleInfo ''Bbox::constructor: Succefully created Bbox''])
          \<and> bounds box = Some (map (roundToDecimals dec)
               [min x0 u0, max x1 u1, min y0 v0, max y1 v1, min z0 w0, max z1 w1])"
proof -
  let ?lo = "\<lparr>vx = min x0 u0, vy = min y0 v0, vz = min z0 w0\<rparr>"
  let ?hi = "\<lparr>vx = max x1 u1, vy = max y1 v1, vz = max z1 w1\<rparr>"
  have lo: "minVec ?lo ?hi = ?lo"
    using ordered zy by (auto simp: minVec_def min_def max_def)
  have hi: "maxVec ?lo ?hi = ?hi"
    using ordered by (auto simp: maxVec_def min_def max_def)
  have ne: "minVec ?lo ?hi \<noteq> maxVec ?lo ?hi"
    unfolding lo hi using extent by auto
  have "added dec this other = newBbox dec (Some (?lo, ?hi))"
    by (simp add: added_def tb ob combinedBounds_six)
  with newBbox_distinct [OF ne, of dec] show ?thesis
    by (simp add: lo hi)
qed

text \<open>
  C8. \<open>enlarged\<close> does not add \<open>2k\<close> to every non-degenerate dimension. The box with
  the bounds \<open>[0,1,0,1,5,10]\<close> (the corners \<open>(0,0,10)\<close> and \<open>(1,1,5)\<close>) has height 5;
  enlarged by 1 it has height 0, whatever the kernel's tolerance is: the enlarged
  corners go through \<open>create\<close>, where the lower z is compared with the upper y.
\<close>

theorem enlarged_height_collapses:
  "height \<lparr>ocBbox = Some (Bnd_Box_2 \<lparr>vx = 0, vy = 0, vz = 5\<rparr> \<lparr>vx = 1, vy = 1, vz = 10\<rparr>),
           position = Some \<lparr>vx = 1 / 2, vy = 1 / 2, vz = 15 / 2\<rparr>,
           bounds = Some [0, 1, 0, 1, 5, 10]\<rparr> = Inr 5
   \<and> (\<exists>r logs. enlarged dec tol
        \<lparr>ocBbox = Some (Bnd_Box_2 \<lparr>vx = 0, vy = 0, vz = 5\<rparr> \<lparr>vx = 1, vy = 1, vz = 10\<rparr>),
         position = Some \<lparr>vx = 1 / 2, vy = 1 / 2, vz = 15 / 2\<rparr>,
         bounds = Some [0, 1, 0, 1, 5, 10]\<rparr> 1 = Inr (r, logs) \<and> height r = Inr 0)"
  by (simp add: enlarged_def is2D_def axisMissingIn2D_def height_def width_def depth_def
      minPoint_def maxPoint_def subtracted_def addedVec_def TOLERANCE_2D_def bbox_eval)

text \<open>
  Where \<open>create\<close> compares as intended (the enlarged lower z is below the enlarged
  upper y), a box that is not 2D grows by the amount on every side.
\<close>

lemma enlarged_3D:
  assumes tb: "bounds this = Some [x0, x1, y0, y1, z0, z1]"
    and not2D: "TOLERANCE_2D + tol < x1 - x0" "TOLERANCE_2D + tol < y1 - y0"
      "TOLERANCE_2D + tol < z1 - z0"
    and tol: "0 \<le> tol" and k: "0 \<le> k"
    and zy: "z0 - k < y1 + k"
  shows "\<exists>box. enlarged dec tol this k =
            Inr (box, [ConsoleInfo ''Bbox::constructor: Succefully created Bbox''])
          \<and> bounds box = Some (map (roundToDecimals dec)
               [x0 - k, x1 + k, y0 - k, y1 + k, z0 - k, z1 + k])"
proof -
  let ?lo = "\<lparr>vx = x0 - k, vy = y0 - k, vz = z0 - k\<rparr>"
  let ?hi = "\<lparr>vx = x1 + k, vy = y1 + k, vz = z1 + k\<rparr>"
  have pos: "x0 < x1" "y0 < y1" "z0 < z1"
    using not2D tol by (simp_all add: TOLERANCE_2D_def)
  have lo: "minVec ?lo ?hi = ?lo"
    using pos k zy by (auto simp: minVec_def)
  have hi: "maxVec ?lo ?hi = ?hi"
    using pos k by (auto simp: maxVec_def)
  have ne: "minVec ?lo ?hi \<noteq> maxVec ?lo ?hi"
    unfolding lo hi using pos k by auto
  have "is2D tol this = Inr False"
    using not2D by (simp add: is2D_def height_def width_def depth_def tb)
  then have "enlarged dec tol this k = newBbox dec (Some (?lo, ?hi))"
    by (simp add: enlarged_def minPoint_def maxPoint_def tb subtracted_def addedVec_def)
  with newBbox_distinct [OF ne, of dec] show ?thesis
    by (simp add: lo hi)
qed

section \<open>Properties of ingestion\<close>

text \<open>
  \<open>_addEntities\<close> on the three kinds of input: nothing, a collection (its \<open>shapes\<close>
  array is spliced in as it is), and an array (flattened, then classified element by
  element).
\<close>

lemma ingest_eval:
  "addEntities typeOf emp newVertex this Null = this"
  "addEntities typeOf emp newVertex this (Coll cs) = this @ cs"
  "addEntities typeOf emp newVertex this (Arr xs) =
     fold (\<lambda>es shapes.
             if es = Null then shapes
             else if isPointLike typeOf es then shapes @ [toVertex newVertex es]
             else if isAnyShapeCollection es then shapes @ collShapes es
             else if isPointLikeSequence typeOf es
               then fold (pointsLoop typeOf emp newVertex)
                      (addEntities typeOf emp newVertex []
                         (Arr (flattenEntities typeOf (flattenEntities typeOf (wrapArray es)))))
                      shapes
             else if isAnyShape es then (if \<not> isEmptyShape emp es then shapes @ [es] else shapes)
             else shapes)
           (flattenEntities typeOf xs) this"
  by (subst addEntities.simps, simp)+

text \<open>
  Every case of the classification appends shapes only. The point-sequence case
  (lines 106-135) is entered for an array of points that the flattening has kept whole;
  whatever its elements are, the loop over them pushes vertices and shapes of type
  \<open>Vertex\<close> only.
\<close>

lemma flat_append [simp]: "flat (xs @ ys) \<longleftrightarrow> flat xs \<and> flat ys"
  by (simp add: flat_def)

lemma flat_Nil [simp]: "flat []"
  by (simp add: flat_def)

lemma flat_toVertex: "isPointLike typeOf es \<Longrightarrow> flat [toVertex newVertex es]"
  by (cases es) (auto simp: flat_def)























text \<open>
  The point-sequence case is reached: an array of two coordinate triples inside the
  input survives the flattening, and its points come out as vertices through the loop.
\<close>

lemma point_sequence_case_reached:
  "flattenEntitiesToArray typeOf (Arr [Arr [Coord p, Coord q], Shp s])
     = [Arr [Coord p, Coord q], Shp s]"
  "addEntities typeOf emp newVertex this (Arr [Arr [Coord p, Coord q]])
     = fold (pointsLoop typeOf emp newVertex) [Shp (newVertex p), Shp (newVertex q)] this"
  by (simp_all add: flattenEntities_def ingest_eval)

text \<open>
  The constructor on an array of shapes is \<open>newShapeCollection\<close>: the vertices and the
  shapes that are not empty, in their order.
\<close>

lemma flattenEntities_shapes [simp]: "flattenEntities typeOf (map Shp ss) = map Shp ss"
  by (induction ss) (simp_all add: flattenEntities_def)

lemma fold_shapes:
  "fold (\<lambda>es shapes.
             if es = Null then shapes
             else if isPointLike typeOf es then shapes @ [toVertex newVertex es]
             else if isAnyShapeCollection es then shapes @ collShapes es
             else if isPointLikeSequence typeOf es
               then fold (pointsLoop typeOf emp newVertex)
                      (addEntities typeOf emp newVertex []
                         (Arr (flattenEntities typeOf (flattenEntities typeOf (wrapArray es)))))
                      shapes
             else if isAnyShape es then (if \<not> isEmptyShape emp es then shapes @ [es] else shapes)
             else shapes)
           (map Shp ss) acc = acc @ map Shp (filter (keepsShape typeOf emp) ss)"
  by (induction ss arbitrary: acc) (simp_all add: keepsShape_def)

lemma ShapeCollection_of_shapes:
  "ShapeCollection typeOf emp newVertex (Arr (map Shp shapes))
     = map Shp (newShapeCollection typeOf emp shapes)"
  by (simp add: ShapeCollection_def fromAll_def ingest_eval fold_shapes newShapeCollection_def)

lemma ShapeCollection_of_vertices:
  assumes "list_all (\<lambda>s. typeOfEntity typeOf s = Some Vertex) vs"
  shows "ShapeCollection typeOf emp newVertex (Arr vs) = vs"
proof -
  have "\<exists>ss. vs = map Shp ss \<and> list_all (\<lambda>s. typeOf s = Vertex) ss"
    using assms
  proof (induction vs)
    case Nil
    then show ?case by simp
  next
    case (Cons v vs)
    then obtain ss where ss: "vs = map Shp ss" "list_all (\<lambda>s. typeOf s = Vertex) ss"
      by auto
    from Cons.prems obtain s where "v = Shp s" "typeOf s = Vertex"
      by (cases v) auto
    with ss have "v # vs = map Shp (s # ss) \<and> list_all (\<lambda>s. typeOf s = Vertex) (s # ss)"
      by simp
    then show ?case by (rule exI)
  qed
  then obtain ss where ss: "vs = map Shp ss" "list_all (\<lambda>s. typeOf s = Vertex) ss"
    by blast
  then have "filter (keepsShape typeOf emp) ss = ss"
    by (simp add: keepsShape_def list_all_iff)
  with ss(1) show ?thesis
    by (simp add: ShapeCollection_of_shapes newShapeCollection_def)
qed

section \<open>Properties of the methods on a collection of shapes\<close>

lemmas obj_eval = arrayIndex_def isDigit_def digitValue_def objectValues_def truthyProp_def
  OBJECT_PROTOTYPE_MEMBERS_def setProp_def

lemma indexOf_rank: "indexOf TYPES_ORDERED t = 5 - int (rank t)"
  by (cases t) (simp_all add: TYPES_ORDERED_def)

lemma indexOf_TYPES_ORDERED_found: "- 1 < indexOf TYPES_ORDERED t"
  by (cases t) (simp_all add: TYPES_ORDERED_def)
lemma lowestType_fold:
  "shapes \<noteq> [] \<Longrightarrow>
   \<exists>s \<in> set shapes.
     fold (\<lambda>s (lowest, lowestIndex).
                  let i = indexOf TYPES_ORDERED (typeOf s)
                  in if i > lowestIndex then (Some (typeOf s), i) else (lowest, lowestIndex))
       shapes (None, - 1) = (Some (typeOf s), indexOf TYPES_ORDERED (typeOf s))
     \<and> (\<forall>u \<in> set shapes. indexOf TYPES_ORDERED (typeOf u) \<le> indexOf TYPES_ORDERED (typeOf s))"
proof (induction shapes rule: rev_induct)
  case Nil
  then show ?case by simp
next
  case (snoc x xs)
  show ?case
  proof (cases "xs = []")
    case True
    then show ?thesis
      by (simp add: indexOf_TYPES_ORDERED_found)
  next
    case False
    with snoc.IH obtain s where s: "s \<in> set xs"
      "fold (\<lambda>s (lowest, lowestIndex).
                  let i = indexOf TYPES_ORDERED (typeOf s)
                  in if i > lowestIndex then (Some (typeOf s), i) else (lowest, lowestIndex))
         xs (None, - 1) = (Some (typeOf s), indexOf TYPES_ORDERED (typeOf s))"
      "\<forall>u \<in> set xs. indexOf TYPES_ORDERED (typeOf u) \<le> indexOf TYPES_ORDERED (typeOf s)"
      by blast
    show ?thesis
    proof (cases "indexOf TYPES_ORDERED (typeOf x) > indexOf TYPES_ORDERED (typeOf s)")
      case True
      with s show ?thesis
        by (intro bexI [of _ x]) (auto simp: Let_def)
    next
      case False
      with s show ?thesis
        by (intro bexI [of _ s]) (auto simp: Let_def)
    qed
  qed
qed

text \<open>
  C6, as the code has it. For a collection that is not empty, \<open>lowestType\<close> returns the
  type of a member whose rank is the lowest among the members: the type present that
  comes last in \<open>Solid, Shell, Face, Wire, Edge, Vertex\<close>.
\<close>

theorem lowestType_lowest_rank:
  assumes "shapes \<noteq> []"
  shows "\<exists>s \<in> set shapes. lowestType typeOf shapes = Some (typeOf s)
           \<and> (\<forall>u \<in> set shapes. rank (typeOf s) \<le> rank (typeOf u))"
proof -
  from lowestType_fold [OF assms, of typeOf] obtain s where s: "s \<in> set shapes"
      "fold (\<lambda>s (lowest, lowestIndex).
                  let i = indexOf TYPES_ORDERED (typeOf s)
                  in if i > lowestIndex then (Some (typeOf s), i) else (lowest, lowestIndex))
         shapes (None, - 1) = (Some (typeOf s), indexOf TYPES_ORDERED (typeOf s))"
      "\<forall>u \<in> set shapes. indexOf TYPES_ORDERED (typeOf u) \<le> indexOf TYPES_ORDERED (typeOf s)"
    by blast
  have "\<forall>u \<in> set shapes. rank (typeOf s) \<le> rank (typeOf u)"
  proof
    fix u assume "u \<in> set shapes"
    with s(3) have "indexOf TYPES_ORDERED (typeOf u) \<le> indexOf TYPES_ORDERED (typeOf s)"
      by blast
    then show "rank (typeOf s) \<le> rank (typeOf u)"
      by (cases "typeOf s"; cases "typeOf u") (simp_all add: TYPES_ORDERED_def)
  qed
  with s(1,2) show ?thesis
    by (auto simp: lowestType_def)
qed

theorem lowestType_lowest_rank_witness:
  "[Solid, Vertex, Face] \<noteq> []
   \<and> (\<exists>s \<in> set [Solid, Vertex, Face]. lowestType id [Solid, Vertex, Face] = Some (id s)
          \<and> (\<forall>u \<in> set [Solid, Vertex, Face]. rank (id s) \<le> rank (id u)))
   \<and> lowestType id [Solid, Vertex, Face] = Some Vertex"
proof -
  have h: "[Solid, Vertex, Face] \<noteq> []"
    by simp
  have v: "lowestType id [Solid, Vertex, Face] = Some Vertex"
    by (simp add: lowestType_def TYPES_ORDERED_def)
  from lowestType_lowest_rank [OF h, of id] h v show ?thesis
    by blast
qed

text \<open>
  C6, as the claim states it, fails: in a collection of a Solid and a Vertex the type of
  the highest rank is \<open>Solid\<close>, and \<open>lowestType\<close> returns \<open>Vertex\<close>.
\<close>

theorem lowestType_not_highest_rank:
  "lowestType id [Solid, Vertex] = Some Vertex \<and> rank Vertex < rank Solid"
  by (simp add: lowestType_def TYPES_ORDERED_def)

text \<open>
  \<open>unique\<close> never reads \<open>equals\<close>: \<open>usedShapes\<close> stays empty, every shape left by
  \<open>distinct\<close> is pushed, and the result is the constructor on them.
\<close>

lemma unique_loop:
  "fold (\<lambda>curShape (usedShapes, uniqueShapes).
                    if curShape \<notin> set usedShapes
                    then (let equalShapes = filter (\<lambda>testShape. equals curShape testShape) shapes;
                              dropped = usedShapes @ (equalShapes @ [curShape])
                          in (usedShapes, uniqueShapes @ [curShape]))
                    else (usedShapes, uniqueShapes))
              xs ([], acc) = ([], acc @ xs)"
  by (induction xs arbitrary: acc) (simp_all add: Let_def)

lemma unique_ignores_equals:
  "unique hashcode equals typeOf emp this =
     (distinctC hashcode this, newShapeCollection typeOf emp (distinctC hashcode this))"
  by (simp add: unique_def Let_def unique_loop)

text \<open>
  C7. \<open>unique\<close> does not remove geometric duplicates. Two edges with the hash codes
  \<open>101\<close> and \<open>102\<close> that are geometrically equal (here every shape equals every
  other) are both in the collection returned.
\<close>

theorem unique_keeps_equal_shapes:
  "unique (\<lambda>n. if n = 1 then ''101'' else ''102'') (\<lambda>a b. True) (\<lambda>n. Edge) (\<lambda>n. False) [1, 2 :: nat]
     = ([1, 2], [1, 2])"
  by (simp add: unique_def distinctC_def newShapeCollection_def keepsShape_def Let_def obj_eval)

text \<open>
  C4. On an empty collection \<open>center()\<close> returns \<open>null\<close>, and \<open>bbox()\<close> does not: it
  raises a \<open>TypeError\<close>, since \<open>this.first()\<close> is \<open>undefined\<close>.
\<close>

theorem bbox_of_empty_collection_throws:
  "centerC dec bboxOf [] = Inr None \<and> bboxC dec bboxOf [] = Inl TypeError"
  by (simp add: centerC_def bboxC_def)

section \<open>Properties of the collection objects\<close>

text \<open>
  C10. \<open>rotate\<close> returns the collection it was called on and changes no shape and no
  member of the collection: the only effect is the new, empty collection object.
\<close>

theorem rotate_is_noop:
  assumes "collectionAt h this = Some shapes" and "this < nextRef h"
  shows "\<exists>h'. rotate rotateXShape rotateYShape rotateZShape rv this h = Inr (this, h')
           \<and> shapeAt h' = shapeAt h \<and> collectionAt h' this = Some shapes"
  using assms by (simp add: rotate_def allocCollection_def)

theorem rotate_is_noop_witness:
  "collectionAt \<lparr>shapeAt = [0 \<mapsto> (10::int)], collectionAt = [1 \<mapsto> [0]], nextRef = 2\<rparr> 1 = Some [0]
   \<and> (1::nat) < nextRef \<lparr>shapeAt = [0 \<mapsto> (10::int)], collectionAt = [1 \<mapsto> [0]], nextRef = 2\<rparr>
   \<and> (\<exists>h'. rotate (\<lambda>deg s. s + 1) (\<lambda>deg s. s + 2) (\<lambda>deg s. s + 3) \<lparr>vx = 180, vy = 0, vz = - 90\<rparr> 1
              \<lparr>shapeAt = [0 \<mapsto> (10::int)], collectionAt = [1 \<mapsto> [0]], nextRef = 2\<rparr> = Inr (1, h')
           \<and> shapeAt h' = [0 \<mapsto> 10] \<and> collectionAt h' 1 = Some [0])"
proof -
  have h1: "collectionAt \<lparr>shapeAt = [0 \<mapsto> (10::int)], collectionAt = [1 \<mapsto> [0]], nextRef = 2\<rparr> 1 = Some [0]"
    by simp
  have h2: "(1::nat) < nextRef \<lparr>shapeAt = [0 \<mapsto> (10::int)], collectionAt = [1 \<mapsto> [0]], nextRef = 2\<rparr>"
    by simp
  from rotate_is_noop [OF h1 h2, of "\<lambda>deg s. s + 1" "\<lambda>deg s. s + 2" "\<lambda>deg s. s + 3"
      "\<lparr>vx = 180, vy = 0, vz = - 90\<rparr>"] h1 h2
  show ?thesis
    by simp
qed

text \<open>
  C5. \<open>rotatedEuler\<close> is a "create copy" variant that does not return the copy:
  whenever it returns, it returns the collection it was called on. (In the example the
  copy, collection 3 with the rotated shape 2, is made and dropped; \<open>moved\<close> on the same
  store returns collection 3.)
\<close>

theorem rotatedEuler_returns_this:
  assumes "rotatedEuler dec typeOf emp bboxOf copyShape rotateEulerShape degX degY degZ pivot this h
             = Inr (r, h')"
  shows "r = this"
  using assms
  by (auto simp: rotatedEuler_def bindE_def split: sum.splits option.splits prod.splits)
lemmas heap_eval = copy_def allocShape_def allocCollection_def keepsShape_def
theorem rotatedEuler_returns_this_witness:
  "rotatedEuler 3 (\<lambda>s. Edge) (\<lambda>s. False) (\<lambda>s. None) (\<lambda>s. s) (\<lambda>dx dy dz pv s. - s)
       90 0 0 (PivotAt \<lparr>vx = 0, vy = 0, vz = 0\<rparr>) 1
       \<lparr>shapeAt = [0 \<mapsto> (10::int)], collectionAt = [1 \<mapsto> [0]], nextRef = 2\<rparr>
     = Inr (1, \<lparr>shapeAt = [0 \<mapsto> 10, 2 \<mapsto> - 10], collectionAt = [1 \<mapsto> [0], 3 \<mapsto> [2]], nextRef = 4\<rparr>)
   \<and> moved (\<lambda>s. Edge) (\<lambda>s. False) (\<lambda>s. s) (\<lambda>v s. s + 1) \<lparr>vx = 1, vy = 0, vz = 0\<rparr> 1
       \<lparr>shapeAt = [0 \<mapsto> (10::int)], collectionAt = [1 \<mapsto> [0]], nextRef = 2\<rparr>
     = Inr (3, \<lparr>shapeAt = [0 \<mapsto> 10, 2 \<mapsto> 11], collectionAt = [1 \<mapsto> [0], 3 \<mapsto> [2]], nextRef = 4\<rparr>)"
proof -
  have e: "rotatedEuler 3 (\<lambda>s. Edge) (\<lambda>s. False) (\<lambda>s. None) (\<lambda>s. s) (\<lambda>dx dy dz pv s. - s)
       90 0 0 (PivotAt \<lparr>vx = 0, vy = 0, vz = 0\<rparr>) 1
       \<lparr>shapeAt = [0 \<mapsto> (10::int)], collectionAt = [1 \<mapsto> [0]], nextRef = 2\<rparr>
     = Inr (1, \<lparr>shapeAt = [0 \<mapsto> 10, 2 \<mapsto> - 10], collectionAt = [1 \<mapsto> [0], 3 \<mapsto> [2]], nextRef = 4\<rparr>)"
    by (simp add: rotatedEuler_def heap_eval)
  have m: "moved (\<lambda>s. Edge) (\<lambda>s. False) (\<lambda>s. s) (\<lambda>v s. s + 1) \<lparr>vx = 1, vy = 0, vz = 0\<rparr> 1
       \<lparr>shapeAt = [0 \<mapsto> (10::int)], collectionAt = [1 \<mapsto> [0]], nextRef = 2\<rparr>
     = Inr (3, \<lparr>shapeAt = [0 \<mapsto> 10, 2 \<mapsto> 11], collectionAt = [1 \<mapsto> [0], 3 \<mapsto> [2]], nextRef = 4\<rparr>)"
    by (simp add: moved_def heap_eval)
  from rotatedEuler_returns_this [OF e] e m show ?thesis
    by simp
qed

text \<open>
  \<open>moved\<close>, the sibling of \<open>rotatedEuler\<close>, does what the contract says: it returns a
  collection other than \<open>this\<close>, and leaves \<open>this\<close> and every shape that existed before
  the call as they were.
\<close>

lemma copyShapes_heap:
  assumes "copyShapes copyShape rs h = Inr (rs', h1)"
  shows "nextRef h \<le> nextRef h1 \<and> collectionAt h1 = collectionAt h
       \<and> (\<forall>r < nextRef h. shapeAt h1 r = shapeAt h r)
       \<and> (\<forall>r \<in> set rs'. nextRef h \<le> r \<and> shapeAt h1 r \<noteq> None)"
  using assms
proof (induction rs arbitrary: h rs' h1)
  case Nil
  then show ?case by simp
next
  case (Cons r rs)
  from Cons.prems obtain s where s: "shapeAt h r = Some s"
    by (auto split: option.splits)
  define h0 where "h0 = h\<lparr>shapeAt := (shapeAt h)(nextRef h \<mapsto> copyShape s), nextRef := Suc (nextRef h)\<rparr>"
  from Cons.prems s obtain rs0 where rs0: "copyShapes copyShape rs h0 = Inr (rs0, h1)"
    and rs': "rs' = nextRef h # rs0"
    by (auto simp: allocShape_def h0_def bindE_def split: sum.splits)
  from Cons.IH [OF rs0] have ih: "nextRef h0 \<le> nextRef h1" "collectionAt h1 = collectionAt h0"
    "\<forall>r < nextRef h0. shapeAt h1 r = shapeAt h0 r"
    "\<forall>r \<in> set rs0. nextRef h0 \<le> r \<and> shapeAt h1 r \<noteq> None"
    by auto
  have n0: "nextRef h0 = Suc (nextRef h)" and c0: "collectionAt h0 = collectionAt h"
    and s0: "shapeAt h0 = (shapeAt h)(nextRef h \<mapsto> copyShape s)"
    by (simp_all add: h0_def)
  show ?case
    using ih rs' by (auto simp: n0 c0 s0)
qed

lemma forEachShape_heap:
  assumes "forEachShape f rs h = Inr h'"
  shows "nextRef h' = nextRef h \<and> collectionAt h' = collectionAt h
       \<and> (\<forall>r. r \<notin> set rs \<longrightarrow> shapeAt h' r = shapeAt h r)"
  using assms
proof (induction rs arbitrary: h)
  case Nil
  then show ?case by simp
next
  case (Cons r rs)
  from Cons.prems obtain s where s: "shapeAt h r = Some s"
    and rest: "forEachShape f rs (h\<lparr>shapeAt := (shapeAt h)(r \<mapsto> f s)\<rparr>) = Inr h'"
    by (auto split: option.splits)
  from Cons.IH [OF rest] show ?case
    by auto
qed

lemma moved_returns_new_collection:
  assumes "moved typeOf emp copyShape moveShape vector this h = Inr (r, h')"
    and "this < nextRef h"
  shows "r \<noteq> this \<and> collectionAt h' this = collectionAt h this
       \<and> (\<forall>s < nextRef h. shapeAt h' s = shapeAt h s)"
proof -
  from assms(1) obtain shapes copied h1 kept h2 where
    sh: "collectionAt h this = Some shapes"
    and cp: "copyShapes copyShape shapes h = Inr (copied, h1)"
    and kept: "kept = filter (\<lambda>r. case shapeAt h1 r of None \<Rightarrow> False
                                 | Some s \<Rightarrow> keepsShape typeOf emp s) copied"
    and r: "r = nextRef h1"
    and fe: "forEachShape (moveShape vector) kept
               (h1\<lparr>collectionAt := (collectionAt h1)(nextRef h1 \<mapsto> kept), nextRef := Suc (nextRef h1)\<rparr>)
             = Inr h2"
    and h': "h' = h2"
    by (auto simp: moved_def copy_def allocCollection_def bindE_def
        split: sum.splits option.splits prod.splits)
  from copyShapes_heap [OF cp] have c: "nextRef h \<le> nextRef h1" "collectionAt h1 = collectionAt h"
    "\<forall>r < nextRef h. shapeAt h1 r = shapeAt h r"
    "\<forall>r \<in> set copied. nextRef h \<le> r \<and> shapeAt h1 r \<noteq> None"
    by auto
  from forEachShape_heap [OF fe] have f: "collectionAt h2 = (collectionAt h1)(nextRef h1 \<mapsto> kept)"
    "\<forall>r. r \<notin> set kept \<longrightarrow> shapeAt h2 r = shapeAt h1 r"
    by auto
  have "\<forall>s < nextRef h. s \<notin> set kept"
    using c(4) kept by auto
  then show ?thesis
    using assms(2) c f r h' by auto
qed

end
